theory Spec2Isabelle
  imports Complex_Main "HOL-Library.Word"
begin

section \<open>JavaScript values used by App.tsx\<close>

text \<open>
  A JavaScript string is a sequence of UTF-16 code units. \<open>js_str\<close> writes an ASCII
  literal of the source as such a sequence.
\<close>

type_synonym js_string = "16 word list"

definition js_str :: "string \<Rightarrow> js_string" where
  "js_str s = map (\<lambda>c. of_nat (of_char c)) s"

text \<open>
  \<open>String.prototype.trim\<close> removes WhiteSpace and LineTerminator code points from both
  ends: TAB, LF, VT, FF, CR, SP, NBSP, U+1680, U+2000..U+200A, U+2028, U+2029, U+202F,
  U+205F, U+3000 and U+FEFF.
\<close>

definition isWhiteSpace :: "16 word \<Rightarrow> bool" where
  "isWhiteSpace c =
     (c \<in> set [0x9, 0xA, 0xB, 0xC, 0xD, 0x20, 0xA0, 0x1680, 0x2028, 0x2029, 0x202F,
               0x205F, 0x3000, 0xFEFF]
      \<or> (0x2000 \<le> c \<and> c \<le> 0x200A))"

definition trim :: "js_string \<Rightarrow> js_string" where
  "trim s = rev (dropWhile isWhiteSpace (rev (dropWhile isWhiteSpace s)))"

text \<open>
  A value that a promise rejects with or that \<open>throw\<close> raises, as far as the \<open>catch\<close> of
  \<open>handleGenerate\<close> tells values apart, which takes \<open>err: any\<close> and reads \<open>err.message\<close>.
  On \<open>null\<close> and \<open>undefined\<close> (\<open>Nullish\<close>) that read raises a \<open>TypeError\<close>. On any
  other value it yields a string (\<open>new Error(m)\<close> has \<open>Some m\<close>) or nothing.
\<close>

datatype thrown = Nullish | Thrown "js_string option"

text \<open>\<open>m || d\<close> on an optional string: \<open>undefined\<close> and the empty string are falsy.\<close>

definition or_else :: "js_string option \<Rightarrow> js_string \<Rightarrow> js_string" where
  "or_else m d = (case m of None \<Rightarrow> d | Some t \<Rightarrow> if t = [] then d else t)"

definition truthy :: "js_string option \<Rightarrow> bool" where
  "truthy m = (case m of None \<Rightarrow> False | Some t \<Rightarrow> t \<noteq> [])"

section \<open>The image helper \<open>resizeImage\<close>\<close>

text \<open>
  A \<open>File\<close> as the browser sees it: the bytes it holds (named by a number), whether
  \<open>FileReader.readAsDataURL\<close> succeeds on it, and the intrinsic width and height that
  \<open>Image\<close> reports once the data is decoded (\<open>None\<close> when \<open>img.onerror\<close> fires).
\<close>

record File =
  blob :: nat
  readable :: bool
  intrinsic :: "(nat \<times> nat) option"

text \<open>
  \<open>Math.round(n / d)\<close> for non-negative integers \<open>n\<close> and \<open>d > 0\<close>: the quotient rounded
  to the nearest integer, a half rounded up. The source divides in double precision; for
  operands of the size of pixel counts the double quotient never reaches the next half,
  so the rounded value is the exact one computed here.
\<close>

definition math_round_div :: "nat \<Rightarrow> nat \<Rightarrow> nat" where
  "math_round_div n d = (2 * n + d) div (2 * d)"

text \<open>
  Lines 19 to 30 of App.tsx: the width and height given to the canvas, from the width and
  height of the decoded image. The bounds are natural numbers, as the default 1024 is.
  Then a branch that divides has a positive divisor: \<open>width > height\<close> in the first, and
  in the second \<open>height\<close> is at least \<open>width\<close> and one of the two exceeds its bound.
\<close>

definition resizeDims :: "nat \<Rightarrow> nat \<Rightarrow> nat \<Rightarrow> nat \<Rightarrow> nat \<times> nat" where
  "resizeDims imgWidth imgHeight maxWidth maxHeight =
     (let width = imgWidth; height = imgHeight in
      if width > maxWidth \<or> height > maxHeight then
        if width > height then
          (maxWidth, math_round_div (height * maxWidth) width)
        else
          (math_round_div (width * maxHeight) height, maxHeight)
      else (width, height))"

text \<open>
  The string that \<open>resizeImage\<close> resolves with: \<open>canvas.toDataURL('image/jpeg', quality)\<close>
  cut after its first comma. A canvas without pixels yields \<open>data:,\<close>, whose second part
  is the empty string; otherwise the string is the JPEG of the drawn bytes at the canvas
  size and quality, kept symbolic.
\<close>

datatype base64 = NoData | JpegData nat nat nat rat

definition toDataURL_payload :: "nat \<Rightarrow> nat \<times> nat \<Rightarrow> rat \<Rightarrow> base64" where
  "toDataURL_payload b dims quality =
     (if fst dims = 0 \<or> snd dims = 0 then NoData
      else JpegData b (fst dims) (snd dims) quality)"

definition resizeImage :: "File \<Rightarrow> nat \<Rightarrow> nat \<Rightarrow> rat \<Rightarrow> thrown + base64" where
  "resizeImage f maxWidth maxHeight quality =
     (if \<not> readable f then Inl (Thrown (Some (js_str ''Failed to read file'')))
      else case intrinsic f of
        None \<Rightarrow> Inl (Thrown (Some (js_str ''Failed to load image for resizing'')))
      | Some (imgWidth, imgHeight) \<Rightarrow>
          Inr (toDataURL_payload (blob f)
                 (resizeDims imgWidth imgHeight maxWidth maxHeight) quality))"

text \<open>The call \<open>resizeImage(selectedFile)\<close> with the default parameters.\<close>

definition resizeImage_default :: "File \<Rightarrow> thrown + base64" where
  "resizeImage_default f = resizeImage f 1024 1024 (4 / 5)"

section \<open>The component state of \<open>App\<close>\<close>

text \<open>The members of \<open>AppState\<close> that App.tsx uses.\<close>

datatype AppState = IDLE | CAPTURING | PREVIEW | GENERATING | RESULT

text \<open>
  \<open>URL.createObjectURL\<close> returns a string unique to the call; it is named here by the
  serial number of the call.
\<close>

type_synonym objectURL = nat

record session =
  appState :: AppState
  selectedFile :: "File option"
  previewUrl :: "objectURL option"
  prompt :: js_string
  generatedImage :: "js_string option"
  error :: "js_string option"

text \<open>Calls that leave the component, in the order they are made.\<close>

datatype call = ResizeImage File | GenerateFutureSelf base64 js_string js_string

text \<open>
  The component state together with what it touches outside: the object URLs that are
  registered with the document (created and not yet revoked), the number of URLs issued
  so far, and the calls made.
\<close>

record world =
  sess :: session
  objectURLs :: "objectURL list"
  issued :: nat
  calls :: "call list"

definition initial_session :: session where
  "initial_session =
     \<lparr>appState = IDLE, selectedFile = None, previewUrl = None, prompt = [],
      generatedImage = None, error = None\<rparr>"

definition initial_world :: world where
  "initial_world = \<lparr>sess = initial_session, objectURLs = [], issued = 0, calls = []\<rparr>"

definition createObjectURL :: "world \<Rightarrow> objectURL \<times> world" where
  "createObjectURL w =
     (issued w, w\<lparr>objectURLs := issued w # objectURLs w, issued := Suc (issued w)\<rparr>)"

text \<open>\<open>URL.revokeObjectURL\<close>: the browser call that releases an object URL.\<close>

definition revokeObjectURL :: "objectURL \<Rightarrow> world \<Rightarrow> world" where
  "revokeObjectURL u w = w\<lparr>objectURLs := removeAll u (objectURLs w)\<rparr>"

section \<open>The handlers\<close>

definition handleFileSelect :: "File \<Rightarrow> world \<Rightarrow> world" where
  "handleFileSelect f w =
     (let (url, w1) = createObjectURL w in
      w1\<lparr>sess := (sess w1)\<lparr>selectedFile := Some f, previewUrl := Some url,
                             appState := PREVIEW\<rparr>\<rparr>)"

definition handleCameraCapture :: "File \<Rightarrow> world \<Rightarrow> world" where
  "handleCameraCapture f w =
     (let (url, w1) = createObjectURL w in
      w1\<lparr>sess := (sess w1)\<lparr>selectedFile := Some f, previewUrl := Some url,
                             appState := PREVIEW\<rparr>\<rparr>)"

text \<open>
  The service \<open>generateFutureSelf\<close> is outside App.tsx: it is a parameter, a function
  from the arguments of the call to the URL it resolves with or the value it rejects with.
\<close>

type_synonym generate = "base64 \<Rightarrow> js_string \<Rightarrow> js_string \<Rightarrow> thrown + js_string"

definition process_message :: js_string where
  "process_message = js_str ''Failed to process image. Please try a different photo.''"

definition generate_message :: js_string where
  "generate_message = js_str ''Failed to generate image. Please try again.''"

text \<open>
  \<open>handleGenerate\<close> up to its first \<open>await\<close>: the guard, the two setters, and the call
  of \<open>resizeImage\<close>.
\<close>

definition handleGenerate_begin :: "world \<Rightarrow> world" where
  "handleGenerate_begin w =
     (case selectedFile (sess w) of
        None \<Rightarrow> w
      | Some f \<Rightarrow>
          if trim (prompt (sess w)) = [] then w
          else w\<lparr>sess := (sess w)\<lparr>appState := GENERATING, error := None\<rparr>,
                 calls := calls w @ [ResizeImage f]\<rparr>)"

text \<open>
  The \<open>try\<close> block after the helper has settled, with the file and prompt the closure
  holds: the value thrown, if any, and the world it leaves.
\<close>

definition try_block :: "generate \<Rightarrow> File \<Rightarrow> js_string \<Rightarrow> world \<Rightarrow> thrown option \<times> world" where
  "try_block gen f p w =
     (case resizeImage_default f of
        Inl resizeError \<Rightarrow> (Some (Thrown (Some process_message)), w)
      | Inr b \<Rightarrow>
          (let w1 = w\<lparr>calls := calls w @ [GenerateFutureSelf b (js_str ''image/jpeg'') p]\<rparr> in
           case gen b (js_str ''image/jpeg'') p of
             Inl err \<Rightarrow> (Some err, w1)
           | Inr resultUrl \<Rightarrow>
               (None, w1\<lparr>sess := (sess w1)\<lparr>generatedImage := Some resultUrl,
                                             appState := RESULT\<rparr>\<rparr>)))"

text \<open>
  The rest of \<open>handleGenerate\<close>: the \<open>try\<close> block and its \<open>catch\<close>. The \<open>catch\<close> logs
  the value, then evaluates \<open>err.message || "Failed to generate image. Please try again."\<close>
  before it calls \<open>setError\<close> and \<open>setAppState\<close>. When the value is \<open>null\<close> or
  \<open>undefined\<close> the read of \<open>err.message\<close> raises inside the \<open>catch\<close>, the function ends
  there, and neither setter runs.
\<close>

definition handleGenerate_settle :: "generate \<Rightarrow> File \<Rightarrow> js_string \<Rightarrow> world \<Rightarrow> world" where
  "handleGenerate_settle gen f p w =
     (case try_block gen f p w of
        (None, w1) \<Rightarrow> w1
      | (Some Nullish, w1) \<Rightarrow> w1
      | (Some (Thrown m), w1) \<Rightarrow>
          w1\<lparr>sess := (sess w1)\<lparr>error := Some (or_else m generate_message),
                                 appState := PREVIEW\<rparr>\<rparr>)"

text \<open>A whole run of \<open>handleGenerate\<close>, from the click to the last setter.\<close>

definition handleGenerate :: "generate \<Rightarrow> world \<Rightarrow> world" where
  "handleGenerate gen w =
     (case selectedFile (sess w) of
        None \<Rightarrow> w
      | Some f \<Rightarrow>
          if trim (prompt (sess w)) = [] then w
          else handleGenerate_settle gen f (prompt (sess w)) (handleGenerate_begin w))"

definition resetApp :: "world \<Rightarrow> world" where
  "resetApp w =
     w\<lparr>sess := (sess w)\<lparr>appState := IDLE, selectedFile := None, previewUrl := None,
                           generatedImage := None, prompt := [], error := None\<rparr>\<rparr>"

text \<open>
  Whether a submission by \<open>handleGenerate\<close> fails: the helper rejects, or the helper
  resolves and the service rejects.
\<close>

definition submission_fails :: "generate \<Rightarrow> File \<Rightarrow> js_string \<Rightarrow> bool" where
  "submission_fails gen f p =
     (case resizeImage_default f of
        Inl e \<Rightarrow> True
      | Inr b \<Rightarrow> (case gen b (js_str ''image/jpeg'') p of Inl e \<Rightarrow> True | Inr u \<Rightarrow> False))"

section \<open>The events the rendered interface can raise\<close>

text \<open>
  The JSX renders one panel per state, so each callback can fire only in the state whose
  panel holds its control: the uploader in \<open>IDLE\<close>, the camera in \<open>CAPTURING\<close>, the
  text area, the Back button and the Generate button in \<open>PREVIEW\<close> with a preview URL,
  nothing in \<open>GENERATING\<close>, and the reset button in \<open>RESULT\<close> with a non-empty result.
  A pending \<open>handleGenerate\<close> settles while the state is \<open>GENERATING\<close>.
\<close>

datatype event =
    FileSelect File
  | CameraSelect
  | CameraCapture File
  | CameraCancel
  | PromptChange js_string
  | GenerateClick
  | GenerateSettled generate
  | ResetClick

definition enabled :: "world \<Rightarrow> event \<Rightarrow> bool" where
  "enabled w e =
     (case e of
        FileSelect f \<Rightarrow> appState (sess w) = IDLE
      | CameraSelect \<Rightarrow> appState (sess w) = IDLE
      | CameraCapture f \<Rightarrow> appState (sess w) = CAPTURING
      | CameraCancel \<Rightarrow> appState (sess w) = CAPTURING
      | PromptChange t \<Rightarrow> appState (sess w) = PREVIEW \<and> previewUrl (sess w) \<noteq> None
      | GenerateClick \<Rightarrow> appState (sess w) = PREVIEW \<and> previewUrl (sess w) \<noteq> None
      | GenerateSettled gen \<Rightarrow> appState (sess w) = GENERATING
      | ResetClick \<Rightarrow>
          (appState (sess w) = PREVIEW \<and> previewUrl (sess w) \<noteq> None)
          \<or> (appState (sess w) = RESULT \<and> truthy (generatedImage (sess w))))"

definition fire :: "event \<Rightarrow> world \<Rightarrow> world" where
  "fire e w =
     (case e of
        FileSelect f \<Rightarrow> handleFileSelect f w
      | CameraSelect \<Rightarrow> w\<lparr>sess := (sess w)\<lparr>appState := CAPTURING\<rparr>\<rparr>
      | CameraCapture f \<Rightarrow> handleCameraCapture f w
      | CameraCancel \<Rightarrow> w\<lparr>sess := (sess w)\<lparr>appState := IDLE\<rparr>\<rparr>
      | PromptChange t \<Rightarrow> w\<lparr>sess := (sess w)\<lparr>prompt := t\<rparr>\<rparr>
      | GenerateClick \<Rightarrow> handleGenerate_begin w
      | GenerateSettled gen \<Rightarrow>
          (case selectedFile (sess w) of
             None \<Rightarrow> w
           | Some f \<Rightarrow> handleGenerate_settle gen f (prompt (sess w)) w)
      | ResetClick \<Rightarrow> resetApp w)"

inductive reachable :: "world \<Rightarrow> bool" where
  start: "reachable initial_world"
| after: "reachable w \<Longrightarrow> enabled w e \<Longrightarrow> reachable (fire e w)"

text \<open>
  What holds of the error and result fields in each state, along every run of the
  interface.
\<close>

definition session_inv :: "world \<Rightarrow> bool" where
  "session_inv w =
     (case appState (sess w) of
        IDLE \<Rightarrow> error (sess w) = None \<and> generatedImage (sess w) = None
      | CAPTURING \<Rightarrow> error (sess w) = None \<and> generatedImage (sess w) = None
      | PREVIEW \<Rightarrow> True
      | GENERATING \<Rightarrow> error (sess w) = None
      | RESULT \<Rightarrow> error (sess w) = None)"

section \<open>Concrete files, services and runs\<close>

definition photo :: File where
  "photo = \<lparr>blob = 1, readable = True, intrinsic = Some (4000, 3000)\<rparr>"

definition broken_photo :: File where
  "broken_photo = \<lparr>blob = 2, readable = True, intrinsic = None\<rparr>"

definition small_photo :: File where
  "small_photo = \<lparr>blob = 3, readable = True, intrinsic = Some (640, 480)\<rparr>"

definition gen_resolves :: generate where
  "gen_resolves b m p = Inr (js_str ''data:image/png;base64,AAAA'')"


definition gen_rejects_silently :: generate where
  "gen_rejects_silently b m p = Inl (Thrown None)"

text \<open>A service that rejects with \<open>undefined\<close>, as \<open>Promise.reject()\<close> does.\<close>

definition gen_rejects_nullish :: generate where
  "gen_rejects_nullish b m p = Inl Nullish"

text \<open>The world after a file is chosen in \<open>IDLE\<close> and a prompt is typed.\<close>

definition reviewing :: "File \<Rightarrow> js_string \<Rightarrow> world" where
  "reviewing f t = fire (PromptChange t) (fire (FileSelect f) initial_world)"

section \<open>Facts about the helper's arithmetic\<close>

lemma math_round_div_bounds:
  assumes "0 < d"
  shows "2 * d * math_round_div n d \<le> 2 * n + d
         \<and> 2 * n + d < 2 * d * (math_round_div n d + 1)"
proof -
  have "0 < 2 * d" using assms by simp
  then show ?thesis
    unfolding math_round_div_def
    by (metis div_mult_mod_eq le_add1 mult.commute pos_mod_bound add.commute
        add_less_cancel_left distrib_left mult.right_neutral dividend_less_times_div)
qed

lemma math_round_div_le:
  assumes "n \<le> d" "0 < d"
  shows "math_round_div (n * m) d \<le> m"
proof -
  have "2 * (n * m) + d \<le> 2 * d * m + d"
    using assms by (simp add: mult_le_mono1)
  also have "\<dots> < (m + 1) * (2 * d)" using assms by simp
  finally have "(2 * (n * m) + d) div (2 * d) < m + 1"
    using assms by (simp add: less_mult_imp_div_less)
  then show ?thesis by (simp add: math_round_div_def)
qed

text \<open>
  With equal bounds, as in the default call, the branch on \<open>width > height\<close> picks the
  axis with the larger ratio, and both results stay within the bound.
\<close>

lemma resizeDims_equal_bounds:
  assumes "m < w \<or> m < h"
  shows "fst (resizeDims w h m m) \<le> m \<and> snd (resizeDims w h m m) \<le> m"
proof (cases "h < w")
  case True
  then have "math_round_div (h * m) w \<le> m" by (intro math_round_div_le) auto
  with True assms show ?thesis by (simp add: resizeDims_def)
next
  case False
  with assms have "0 < h" "w \<le> h" by auto
  then have "math_round_div (w * m) h \<le> m" by (intro math_round_div_le) auto
  with False assms show ?thesis by (simp add: resizeDims_def)
qed

lemma resizeDims_equal_bounds_landscape:
  assumes "m < w \<or> m < h" "h < w"
  shows "fst (resizeDims w h m m) = m
         \<and> 2 * w * snd (resizeDims w h m m) \<le> 2 * (h * m) + w
         \<and> 2 * (h * m) + w < 2 * w * (snd (resizeDims w h m m) + 1)"
proof -
  have "0 < w" using assms by simp
  from math_round_div_bounds [OF this, of "h * m"] assms
  show ?thesis by (simp add: resizeDims_def)
qed

lemma resizeDims_equal_bounds_portrait:
  assumes "m < w \<or> m < h" "w \<le> h"
  shows "snd (resizeDims w h m m) = m
         \<and> 2 * h * fst (resizeDims w h m m) \<le> 2 * (w * m) + h
         \<and> 2 * (w * m) + h < 2 * h * (fst (resizeDims w h m m) + 1)"
proof -
  have "0 < h" using assms by auto
  from math_round_div_bounds [OF this, of "w * m"] assms
  show ?thesis by (simp add: resizeDims_def)
qed

section \<open>Claims about \<open>resizeImage\<close>\<close>

text \<open>
  C1. For a decodable image wider than \<open>maxWidth\<close> or taller than \<open>maxHeight\<close>, both output
  dimensions are to be within the bounds. The helper branches on \<open>width > height\<close>
  instead of comparing the two ratios: an 800 x 600 image with \<open>maxWidth = 1000\<close> and
  \<open>maxHeight = 100\<close> comes out as 1000 x 750, taller than \<open>maxHeight\<close> and wider than the
  input.
\<close>

theorem resizeDims_exceeds_maxHeight:
  "resizeDims 800 600 1000 100 = (1000, 750)
   \<and> 100 < snd (resizeDims 800 600 1000 100)
   \<and> 800 < fst (resizeDims 800 600 1000 100)"
  by (simp add: resizeDims_def math_round_div_def)

text \<open>
  C7. A readable, decodable file whose width and height are both within the bounds is
  drawn at its own width and height: the computed dimensions equal the intrinsic ones,
  and computing them again from the result changes nothing.
\<close>

theorem resizeDims_within_bounds:
  assumes "readable f" "intrinsic f = Some (w, h)" "w \<le> maxWidth" "h \<le> maxHeight"
  shows "resizeDims w h maxWidth maxHeight = (w, h)
         \<and> resizeImage f maxWidth maxHeight q = Inr (toDataURL_payload (blob f) (w, h) q)
         \<and> resizeDims (fst (resizeDims w h maxWidth maxHeight))
                      (snd (resizeDims w h maxWidth maxHeight)) maxWidth maxHeight
             = (w, h)"
  using assms by (simp add: resizeDims_def resizeImage_def)

theorem resizeDims_within_bounds_witness:
  "readable small_photo \<and> intrinsic small_photo = Some (640, 480)
   \<and> resizeDims 640 480 1024 1024 = (640, 480)
   \<and> resizeImage small_photo 1024 1024 (4 / 5) = Inr (JpegData 3 640 480 (4 / 5))"
proof -
  have r: "readable small_photo" and i: "intrinsic small_photo = Some (640, 480)"
    by (simp_all add: small_photo_def)
  have "(640::nat) \<le> 1024" and "(480::nat) \<le> 1024" by simp_all
  from resizeDims_within_bounds [OF r i this, of "4 / 5"] r i
  show ?thesis by (simp add: toDataURL_payload_def small_photo_def)
qed

text \<open>
  C9. The scaled dimension is the rounded quotient with no lower clamp: a 5000 x 1 image
  at the default 1024 x 1024 bounds gets the canvas height 0.
\<close>

theorem resizeDims_zero_height:
  "resizeDims 5000 1 1024 1024 = (1024, 0)
   \<and> math_round_div (1 * 1024) 5000 = 0"
  by (simp add: resizeDims_def math_round_div_def)

section \<open>Facts about the handlers\<close>

lemma process_message_nonempty: "process_message \<noteq> []"
  by (simp add: process_message_def js_str_def)

lemma settle_resize_rejects:
  assumes "resizeImage_default f = Inl e"
  shows "handleGenerate_settle gen f p w =
           w\<lparr>sess := (sess w)\<lparr>error := Some process_message, appState := PREVIEW\<rparr>\<rparr>"
  using assms process_message_nonempty
  by (simp add: handleGenerate_settle_def try_block_def or_else_def)

lemma settle_generate_rejects:
  assumes "resizeImage_default f = Inr b" "gen b (js_str ''image/jpeg'') p = Inl (Thrown m)"
  shows "handleGenerate_settle gen f p w =
           w\<lparr>calls := calls w @ [GenerateFutureSelf b (js_str ''image/jpeg'') p],
             sess := (sess w)\<lparr>error := Some (or_else m generate_message),
                               appState := PREVIEW\<rparr>\<rparr>"
  using assms by (simp add: handleGenerate_settle_def try_block_def Let_def)

lemma settle_generate_rejects_nullish:
  assumes "resizeImage_default f = Inr b" "gen b (js_str ''image/jpeg'') p = Inl Nullish"
  shows "handleGenerate_settle gen f p w =
           w\<lparr>calls := calls w @ [GenerateFutureSelf b (js_str ''image/jpeg'') p]\<rparr>"
  using assms by (simp add: handleGenerate_settle_def try_block_def Let_def)

lemma settle_generate_resolves:
  assumes "resizeImage_default f = Inr b" "gen b (js_str ''image/jpeg'') p = Inr u"
  shows "handleGenerate_settle gen f p w =
           w\<lparr>calls := calls w @ [GenerateFutureSelf b (js_str ''image/jpeg'') p],
             sess := (sess w)\<lparr>generatedImage := Some u, appState := RESULT\<rparr>\<rparr>"
  using assms by (simp add: handleGenerate_settle_def try_block_def Let_def)

lemma handleGenerate_passes_guard:
  assumes "selectedFile (sess w) = Some f" "trim (prompt (sess w)) \<noteq> []"
  shows "handleGenerate gen w =
           handleGenerate_settle gen f (prompt (sess w))
             (w\<lparr>sess := (sess w)\<lparr>appState := GENERATING, error := None\<rparr>,
                calls := calls w @ [ResizeImage f]\<rparr>)"
  using assms by (simp add: handleGenerate_def handleGenerate_begin_def)

lemma settle_preserves_inv:
  assumes "session_inv w" "appState (sess w) = GENERATING"
  shows "session_inv (handleGenerate_settle gen f p w)"
proof (cases "resizeImage_default f")
  case (Inl e)
  then show ?thesis by (simp add: settle_resize_rejects session_inv_def)
next
  case (Inr b)
  show ?thesis
  proof (cases "gen b (js_str ''image/jpeg'') p")
    case (Inl err)
    with Inr assms show ?thesis
      by (cases err)
         (simp_all add: settle_generate_rejects settle_generate_rejects_nullish session_inv_def)
  next
    case (Inr u)
    with \<open>resizeImage_default f = Inr b\<close> assms show ?thesis
      by (simp add: settle_generate_resolves session_inv_def)
  qed
qed

lemma fire_preserves_inv:
  assumes "session_inv w" "enabled w e"
  shows "session_inv (fire e w)"
proof (cases e)
  case (GenerateSettled gen)
  then show ?thesis
    using assms settle_preserves_inv
    by (auto simp: enabled_def fire_def split: option.splits)
next
  case GenerateClick
  then show ?thesis
    using assms
    by (auto simp: session_inv_def enabled_def fire_def handleGenerate_begin_def
             split: option.splits)
qed (use assms in \<open>auto simp: session_inv_def enabled_def fire_def handleFileSelect_def
       handleCameraCapture_def createObjectURL_def resetApp_def\<close>)

lemma reachable_inv: "reachable w \<Longrightarrow> session_inv w"
proof (induction rule: reachable.induct)
  case start
  show ?case by (simp add: session_inv_def initial_world_def initial_session_def)
next
  case (after w e)
  then show ?case by (simp add: fire_preserves_inv)
qed

lemma handleGenerate_as_events:
  assumes "selectedFile (sess w) = Some f" "trim (prompt (sess w)) \<noteq> []"
  shows "handleGenerate gen w = fire (GenerateSettled gen) (fire GenerateClick w)"
  using assms by (simp add: handleGenerate_def fire_def handleGenerate_begin_def)

lemma reachable_handleGenerate:
  assumes "reachable w" "appState (sess w) = PREVIEW" "previewUrl (sess w) \<noteq> None"
    and "selectedFile (sess w) = Some f" "trim (prompt (sess w)) \<noteq> []"
  shows "reachable (handleGenerate gen w)"
proof -
  have "enabled w GenerateClick" using assms by (simp add: enabled_def)
  with assms(1) have r: "reachable (fire GenerateClick w)" by (rule reachable.after)
  have "enabled (fire GenerateClick w) (GenerateSettled gen)"
    using assms by (simp add: enabled_def fire_def handleGenerate_begin_def)
  with r have "reachable (fire (GenerateSettled gen) (fire GenerateClick w))"
    by (rule reachable.after)
  with assms show ?thesis by (simp add: handleGenerate_as_events)
qed

section \<open>The concrete runs, evaluated\<close>

lemma trim_astronaut: "trim (js_str ''playing astronaut'') = js_str ''playing astronaut''"
  by (simp add: trim_def js_str_def isWhiteSpace_def)

lemma resize_photo: "resizeImage_default photo = Inr (JpegData 1 1024 768 (4 / 5))"
  by (simp add: resizeImage_default_def resizeImage_def resizeDims_def math_round_div_def
      toDataURL_payload_def photo_def)

lemma resize_broken_photo:
  "resizeImage_default broken_photo = Inl (Thrown (Some (js_str ''Failed to load image for resizing'')))"
  by (simp add: resizeImage_default_def resizeImage_def broken_photo_def)

lemma reviewing_eval:
  "reviewing f t =
     \<lparr>sess = \<lparr>appState = PREVIEW, selectedFile = Some f, previewUrl = Some 0, prompt = t,
               generatedImage = None, error = None\<rparr>,
      objectURLs = [0], issued = 1, calls = []\<rparr>"
  by (simp add: reviewing_def fire_def handleFileSelect_def createObjectURL_def
      initial_world_def initial_session_def)

lemma reachable_reviewing: "reachable (reviewing f t)"
  unfolding reviewing_def
  by (intro reachable.intros)
     (simp_all add: enabled_def fire_def handleFileSelect_def createObjectURL_def
        initial_world_def initial_session_def)

lemma result_run:
  "sess (handleGenerate gen_resolves (reviewing photo (js_str ''playing astronaut'')))
     = \<lparr>appState = RESULT, selectedFile = Some photo, previewUrl = Some 0,
        prompt = js_str ''playing astronaut'',
        generatedImage = Some (js_str ''data:image/png;base64,AAAA''), error = None\<rparr>"
proof -
  let ?w = "reviewing photo (js_str ''playing astronaut'')"
  have a: "selectedFile (sess ?w) = Some photo" by (simp add: reviewing_eval)
  have b: "trim (prompt (sess ?w)) \<noteq> []"
    by (simp add: reviewing_eval trim_astronaut) (simp add: js_str_def)
  show ?thesis
    using a b
    by (simp add: handleGenerate_passes_guard
          settle_generate_resolves [OF resize_photo, of gen_resolves _ "js_str ''data:image/png;base64,AAAA''"]
          gen_resolves_def reviewing_eval)
qed


lemma nullish_run:
  "handleGenerate gen_rejects_nullish (reviewing photo (js_str ''playing astronaut''))
     = \<lparr>sess = \<lparr>appState = GENERATING, selectedFile = Some photo, previewUrl = Some 0,
          prompt = js_str ''playing astronaut'', generatedImage = None, error = None\<rparr>,
        objectURLs = [0], issued = 1,
        calls = [ResizeImage photo,
                 GenerateFutureSelf (JpegData 1 1024 768 (4 / 5)) (js_str ''image/jpeg'')
                   (js_str ''playing astronaut'')]\<rparr>"
proof -
  let ?w = "reviewing photo (js_str ''playing astronaut'')"
  have a: "selectedFile (sess ?w) = Some photo" by (simp add: reviewing_eval)
  have b: "trim (prompt (sess ?w)) \<noteq> []"
    by (simp add: reviewing_eval trim_astronaut) (simp add: js_str_def)
  show ?thesis
    using a b
    by (simp add: handleGenerate_passes_guard
          settle_generate_rejects_nullish [OF resize_photo, of gen_rejects_nullish]
          gen_rejects_nullish_def reviewing_eval)
qed

lemma reachable_nullish_run:
  "reachable (handleGenerate gen_rejects_nullish (reviewing photo (js_str ''playing astronaut'')))"
proof -
  let ?w = "reviewing photo (js_str ''playing astronaut'')"
  have b: "trim (prompt (sess ?w)) \<noteq> []"
    by (simp add: reviewing_eval trim_astronaut) (simp add: js_str_def)
  show ?thesis
    by (rule reachable_handleGenerate [OF reachable_reviewing _ _ _ b, of photo])
       (simp_all add: reviewing_eval)
qed


section \<open>Claims about the handlers\<close>

text \<open>
  C2. When no file is selected, or the prompt is empty or consists of white space only,
  \<open>handleGenerate\<close> returns at its guard: the whole world is unchanged, so no field of
  the session changes and neither \<open>resizeImage\<close> nor \<open>generateFutureSelf\<close> is called.
\<close>
theorem handleGenerate_guard_noop:
  assumes "selectedFile (sess w) = None \<or> trim (prompt (sess w)) = []"
  shows "handleGenerate gen w = w \<and> handleGenerate_begin w = w
         \<and> calls (handleGenerate gen w) = calls w"
  using assms
  by (auto simp: handleGenerate_def handleGenerate_begin_def split: option.splits)

theorem handleGenerate_guard_noop_witness:
  "trim (prompt (sess (reviewing photo [0x20, 0x9, 0xA0, 0x3000]))) = []
   \<and> handleGenerate gen_resolves (reviewing photo [0x20, 0x9, 0xA0, 0x3000])
       = reviewing photo [0x20, 0x9, 0xA0, 0x3000]
   \<and> selectedFile (sess initial_world) = None
   \<and> handleGenerate gen_resolves initial_world = initial_world"
proof -
  have a: "trim (prompt (sess (reviewing photo [0x20, 0x9, 0xA0, 0x3000]))) = []"
    by (simp add: reviewing_eval trim_def isWhiteSpace_def)
  have b: "selectedFile (sess initial_world) = None"
    by (simp add: initial_world_def initial_session_def)
  from handleGenerate_guard_noop [of "reviewing photo [0x20, 0x9, 0xA0, 0x3000]" gen_resolves]
       handleGenerate_guard_noop [of initial_world gen_resolves] a b
  show ?thesis by simp
qed

text \<open>
  What the \<open>catch\<close> does recover from: when the helper rejects, or the service rejects
  with a value other than \<open>null\<close> and \<open>undefined\<close>, the submission ends in \<open>PREVIEW\<close>
  with the file and the prompt it started with, and only \<open>appState\<close> and \<open>error\<close> are
  written.
\<close>

lemma recovery_after_readable_rejection:
  assumes "selectedFile (sess w) = Some f" "trim (prompt (sess w)) \<noteq> []"
    and "(\<exists>e. resizeImage_default f = Inl e)
         \<or> (\<exists>b m. resizeImage_default f = Inr b
                \<and> gen b (js_str ''image/jpeg'') (prompt (sess w)) = Inl (Thrown m))"
  shows "appState (sess (handleGenerate gen w)) = PREVIEW
         \<and> selectedFile (sess (handleGenerate gen w)) = selectedFile (sess w)
         \<and> prompt (sess (handleGenerate gen w)) = prompt (sess w)
         \<and> error (sess (handleGenerate gen w)) \<noteq> None
         \<and> sess (handleGenerate gen w)
             = (sess w)\<lparr>appState := PREVIEW, error := error (sess (handleGenerate gen w))\<rparr>"
  using assms(3)
proof (elim disjE exE conjE)
  fix e assume "resizeImage_default f = Inl e"
  with assms(1,2) show ?thesis
    by (simp add: handleGenerate_passes_guard settle_resize_rejects)
next
  fix b m
  assume "resizeImage_default f = Inr b"
    and "gen b (js_str ''image/jpeg'') (prompt (sess w)) = Inl (Thrown m)"
  with assms(1,2) show ?thesis
    by (simp add: handleGenerate_passes_guard settle_generate_rejects)
qed

text \<open>
  C3. Every failed submission is to end in \<open>PREVIEW\<close>, never left in \<open>GENERATING\<close>. When
  the service rejects with \<open>null\<close> or \<open>undefined\<close> the submission fails and the \<open>catch\<close>
  stops at \<open>err.message\<close> before \<open>setAppState(AppState.PREVIEW)\<close>: the run of the
  interface below ends in \<open>GENERATING\<close>.
\<close>

theorem nullish_rejection_stays_generating:
  "submission_fails gen_rejects_nullish photo (js_str ''playing astronaut'')
   \<and> reachable (handleGenerate gen_rejects_nullish (reviewing photo (js_str ''playing astronaut'')))
   \<and> appState (sess (handleGenerate gen_rejects_nullish
                        (reviewing photo (js_str ''playing astronaut'')))) = GENERATING"
proof (intro conjI)
  show "submission_fails gen_rejects_nullish photo (js_str ''playing astronaut'')"
    by (simp add: submission_fails_def resize_photo gen_rejects_nullish_def)
  show "reachable (handleGenerate gen_rejects_nullish
                     (reviewing photo (js_str ''playing astronaut'')))"
    by (rule reachable_nullish_run)
  show "appState (sess (handleGenerate gen_rejects_nullish
                          (reviewing photo (js_str ''playing astronaut'')))) = GENERATING"
    by (simp add: nullish_run)
qed

text \<open>
  C4. After \<open>resetApp\<close>, from any world, the state is \<open>IDLE\<close> and the file, the preview
  URL, the prompt, the error and the generated image have their initial values.
\<close>
theorem resetApp_clears_session:
  "appState (sess (resetApp w)) = IDLE
   \<and> selectedFile (sess (resetApp w)) = None
   \<and> previewUrl (sess (resetApp w)) = None
   \<and> prompt (sess (resetApp w)) = []
   \<and> error (sess (resetApp w)) = None
   \<and> generatedImage (sess (resetApp w)) = None
   \<and> sess (resetApp w) = sess initial_world"
  by (simp add: resetApp_def initial_world_def initial_session_def)

text \<open>
  The error field after a submission that passes the guard, case by case: the fixed
  image-processing message when the helper rejects, whatever it rejected with; the message
  of the rejection when the service rejects with a non-empty message; the fixed generation
  message when it rejects with a value that has no message or an empty one; and null, as
  cleared on entering \<open>GENERATING\<close>, when the service rejects with \<open>null\<close> or
  \<open>undefined\<close> or resolves.
\<close>

lemma error_after_submission:
  assumes "selectedFile (sess w) = Some f" "trim (prompt (sess w)) \<noteq> []"
  shows "error (sess (handleGenerate gen w)) =
           (case resizeImage_default f of
              Inl e \<Rightarrow> Some (js_str ''Failed to process image. Please try a different photo.'')
            | Inr b \<Rightarrow>
                (case gen b (js_str ''image/jpeg'') (prompt (sess w)) of
                   Inl Nullish \<Rightarrow> None
                 | Inl (Thrown None) \<Rightarrow>
                     Some (js_str ''Failed to generate image. Please try again.'')
                 | Inl (Thrown (Some m)) \<Rightarrow>
                     if m = [] then Some (js_str ''Failed to generate image. Please try again.'')
                     else Some m
                 | Inr u \<Rightarrow> None))"
proof (cases "resizeImage_default f")
  case (Inl e)
  with assms show ?thesis
    by (simp add: handleGenerate_passes_guard settle_resize_rejects process_message_def)
next
  case (Inr b)
  show ?thesis
  proof (cases "gen b (js_str ''image/jpeg'') (prompt (sess w))")
    case (Inl err)
    with Inr assms show ?thesis
      by (cases err)
         (simp_all add: handleGenerate_passes_guard settle_generate_rejects
            settle_generate_rejects_nullish or_else_def generate_message_def
            split: option.splits)
  next
    case (Inr u)
    with \<open>resizeImage_default f = Inr b\<close> assms show ?thesis
      by (simp add: handleGenerate_passes_guard settle_generate_resolves)
  qed
qed

text \<open>
  C6. When the service fails without a message the error field is to be the fixed
  generation message. When it rejects with \<open>null\<close> or \<open>undefined\<close> the \<open>catch\<close> stops
  at \<open>err.message\<close> before \<open>setError\<close>: after the submission below the error field is
  null.
\<close>

theorem nullish_rejection_leaves_error_null:
  "gen_rejects_nullish (JpegData 1 1024 768 (4 / 5)) (js_str ''image/jpeg'')
       (js_str ''playing astronaut'') = Inl Nullish
   \<and> error (sess (handleGenerate gen_rejects_nullish
                     (reviewing photo (js_str ''playing astronaut'')))) = None"
  by (simp add: gen_rejects_nullish_def nullish_run)

section \<open>Claims about the runs of the interface\<close>

text \<open>
  C10. In every world that the interface can reach, if the state is \<open>RESULT\<close> then the
  error field is null.
\<close>
theorem result_state_has_no_error:
  assumes "reachable w" "appState (sess w) = RESULT"
  shows "error (sess w) = None"
  using reachable_inv [OF assms(1)] assms(2) by (simp add: session_inv_def)

theorem result_state_has_no_error_witness:
  "reachable (handleGenerate gen_resolves (reviewing photo (js_str ''playing astronaut'')))
   \<and> appState (sess (handleGenerate gen_resolves (reviewing photo (js_str ''playing astronaut'')))) = RESULT
   \<and> error (sess (handleGenerate gen_resolves (reviewing photo (js_str ''playing astronaut'')))) = None"
proof -
  let ?w = "reviewing photo (js_str ''playing astronaut'')"
  have b: "trim (prompt (sess ?w)) \<noteq> []"
    by (simp add: reviewing_eval trim_astronaut) (simp add: js_str_def)
  have r: "reachable (handleGenerate gen_resolves ?w)"
    by (rule reachable_handleGenerate [OF reachable_reviewing _ _ _ b, of photo])
       (simp_all add: reviewing_eval)
  have s: "appState (sess (handleGenerate gen_resolves ?w)) = RESULT"
    by (simp add: result_run)
  from result_state_has_no_error [OF r s] r s show ?thesis by simp
qed




text \<open>
  C8, as stated, fails: after a file is selected and the session is reset, or a second
  file is selected, the first object URL is no longer held by the session and is still
  registered.
\<close>
theorem preview_url_not_revoked:
  "previewUrl (sess (handleFileSelect photo initial_world)) = Some 0
   \<and> previewUrl (sess (resetApp (handleFileSelect photo initial_world))) = None
   \<and> 0 \<in> set (objectURLs (resetApp (handleFileSelect photo initial_world)))
   \<and> previewUrl (sess (handleFileSelect small_photo (handleFileSelect photo initial_world))) = Some 1
   \<and> 0 \<in> set (objectURLs (handleFileSelect small_photo (handleFileSelect photo initial_world)))"
  by (simp add: handleFileSelect_def createObjectURL_def resetApp_def initial_world_def
      initial_session_def)

text \<open>
  C8, amended. A preview URL that is registered stays registered when a new file is
  selected or captured and when the session is reset: the session only drops its pointer.
  No event of the interface removes an object URL.
\<close>

theorem preview_url_stays_registered:
  assumes "previewUrl (sess w) = Some u" "u \<in> set (objectURLs w)"
  shows "u \<in> set (objectURLs (handleFileSelect f w))
         \<and> u \<in> set (objectURLs (handleCameraCapture f w))
         \<and> u \<in> set (objectURLs (resetApp w))
         \<and> objectURLs (resetApp w) = objectURLs w
         \<and> objectURLs (handleFileSelect f w) = issued w # objectURLs w
         \<and> objectURLs (handleCameraCapture f w) = issued w # objectURLs w
         \<and> set (objectURLs w) \<subseteq> set (objectURLs (fire e w))"
proof -
  have "set (objectURLs w) \<subseteq> set (objectURLs (fire e w))"
  proof (cases e)
    case (GenerateSettled gen)
    then show ?thesis
      by (auto simp: fire_def handleGenerate_settle_def try_block_def Let_def
            split: option.splits sum.splits thrown.splits)
  qed (auto simp: fire_def handleFileSelect_def handleCameraCapture_def createObjectURL_def
         resetApp_def handleGenerate_begin_def split: option.splits)
  with assms show ?thesis
    by (simp add: handleFileSelect_def handleCameraCapture_def createObjectURL_def resetApp_def)
qed

theorem preview_url_stays_registered_witness:
  "previewUrl (sess (handleFileSelect photo initial_world)) = Some 0
   \<and> 0 \<in> set (objectURLs (handleFileSelect photo initial_world))
   \<and> 0 \<in> set (objectURLs (resetApp (handleFileSelect photo initial_world)))
   \<and> 0 \<in> set (objectURLs (handleCameraCapture small_photo (handleFileSelect photo initial_world)))"
proof -
  have a: "previewUrl (sess (handleFileSelect photo initial_world)) = Some 0"
    and b: "0 \<in> set (objectURLs (handleFileSelect photo initial_world))"
    by (simp_all add: handleFileSelect_def createObjectURL_def initial_world_def)
  from preview_url_stays_registered [OF a b, of small_photo] a b show ?thesis by simp
qed

end
